theory Spec2Isabelle
  imports Complex_Main
begin

section \<open>SparkGrid VPP simulator: data model\<close>

text \<open>
  The source is one React component (\<open>App\<close>) over the types of \<open>types.ts\<close>.
  A TypeScript \<open>number\<close> is modelled as a \<open>real\<close>: sums, products, comparisons,
  \<open>Math.max\<close>, \<open>Math.min\<close> and \<open>Math.abs\<close> are the exact ones. The binary
  rounding of the IEEE doubles is left out of the model, except in
  \<open>stats_rounded\<close>, which carries it as a parameter.

  Field names follow \<open>types.ts\<close>, with a prefix where the source's name is a HOL
  constant or would capture the variables of later statements:
  \<open>id\<close>, \<open>name\<close>, \<open>type\<close> are \<open>asset_id\<close>, \<open>asset_name\<close>, \<open>asset_type\<close>,
  and \<open>x\<close>, \<open>y\<close> are \<open>pos_x\<close>, \<open>pos_y\<close>.
\<close>

datatype AssetType = SOLAR | WIND | BATTERY | BUILDING | FACTORY | EV_STATION

datatype Status = active | offline | warning

record GridAsset =
  asset_id :: string
  asset_name :: string
  asset_type :: AssetType
  capacity :: real
  currentOutput :: real
  status :: Status
  pos_x :: real
  pos_y :: real

record GridStats =
  totalGeneration :: real
  totalConsumption :: real
  netLoad :: real
  storageLevel :: real
  gridFrequency :: real

text \<open>One element of the \<open>history\<close> array (the object literal \<open>newPoint\<close>).\<close>

record HistoryPoint =
  time :: string
  generation :: real
  consumption :: real
  net :: real

text \<open>The five \<open>useState\<close> cells of \<open>App\<close>.\<close>

record AppState =
  assets :: "GridAsset list"
  history :: "HistoryPoint list"
  logs :: "string list"
  aiAdvice :: string
  isLoadingAdvice :: bool

definition INITIAL_ASSETS :: "GridAsset list" where
  "INITIAL_ASSETS =
    [ \<lparr>asset_id = ''1'', asset_name = ''Sunny Meadows PV'', asset_type = SOLAR,
        capacity = 50, currentOutput = 35, status = active, pos_x = 15, pos_y = 20\<rparr>,
      \<lparr>asset_id = ''2'', asset_name = ''West Ridge Wind'', asset_type = WIND,
        capacity = 80, currentOutput = 42, status = active, pos_x = 80, pos_y = 15\<rparr>,
      \<lparr>asset_id = ''3'', asset_name = ''Central Battery B1'', asset_type = BATTERY,
        capacity = 40, currentOutput = - 10, status = active, pos_x = 50, pos_y = 50\<rparr>,
      \<lparr>asset_id = ''4'', asset_name = ''Downtown Hub'', asset_type = BUILDING,
        capacity = 30, currentOutput = 25, status = active, pos_x = 45, pos_y = 75\<rparr>,
      \<lparr>asset_id = ''5'', asset_name = ''Tech Park A'', asset_type = FACTORY,
        capacity = 100, currentOutput = 85, status = active, pos_x = 75, pos_y = 80\<rparr>,
      \<lparr>asset_id = ''6'', asset_name = ''Supercharger Lot'', asset_type = EV_STATION,
        capacity = 20, currentOutput = 12, status = active, pos_x = 20, pos_y = 85\<rparr> ]"

definition initial_state :: AppState where
  "initial_state =
    \<lparr>assets = INITIAL_ASSETS, history = [],
     logs = [''Grid initialized...'', ''VPP systems operational.''],
     aiAdvice = ''Waiting for system telemetry...'', isLoadingAdvice = False\<rparr>"

section \<open>Statistics\<close>

text \<open>
  \<open>Math.round\<close> returns the integer nearest to its argument, a tie going to the
  larger one: \<open>floor (v + 1/2)\<close>.
\<close>

definition Math_round :: "real \<Rightarrow> real" where
  "Math_round v = of_int \<lfloor>v + 1 / 2\<rfloor>"

text \<open>
  The body of \<open>assets.forEach\<close> in the \<open>stats\<close> memo, on the pair of accumulators
  \<open>(gen, cons)\<close>.
\<close>

fun accumulate :: "real \<times> real \<Rightarrow> GridAsset \<Rightarrow> real \<times> real" where
  "accumulate (gen, cons) a =
    (if asset_type a \<in> {SOLAR, WIND} then (gen + currentOutput a, cons)
     else if asset_type a \<in> {BUILDING, FACTORY, EV_STATION} then (gen, cons + currentOutput a)
     else if asset_type a = BATTERY then
       (if currentOutput a > 0 then (gen + currentOutput a, cons)
        else (gen, cons + \<bar>currentOutput a\<bar>))
     else (gen, cons))"

text \<open>
  The \<open>stats\<close> memo. The value of \<open>Math.random()\<close> drawn for the frequency is the
  parameter \<open>r\<close>.
\<close>

definition stats :: "real \<Rightarrow> GridAsset list \<Rightarrow> GridStats" where
  "stats r as =
    (case foldl accumulate (0, 0) as of (gen, cons) \<Rightarrow>
      \<lparr>totalGeneration = Math_round (gen * 10) / 10,
       totalConsumption = Math_round (cons * 10) / 10,
       netLoad = Math_round ((cons - gen) * 10) / 10,
       storageLevel = 65,
       gridFrequency = 50 + (r - 0.5) * 0.1\<rparr>)"

text \<open>
  The same memo with the rounding of double arithmetic made explicit. Every sum,
  difference, product and quotient of the source yields the double nearest to the exact
  result; \<open>fl\<close> is that rounding, a parameter of the model. \<open>Math.round\<close> and
  \<open>Math.abs\<close> are exact on doubles, and so are the literals \<open>0\<close>, \<open>10\<close>, \<open>50\<close>,
  \<open>65\<close> and \<open>0.5\<close>; the literal \<open>0.1\<close> is the double \<open>fl 0.1\<close>. With the identity
  for \<open>fl\<close> this is \<open>stats\<close>.
\<close>

fun accumulate_rounded :: "(real \<Rightarrow> real) \<Rightarrow> real \<times> real \<Rightarrow> GridAsset \<Rightarrow> real \<times> real" where
  "accumulate_rounded fl (gen, cons) a =
    (if asset_type a \<in> {SOLAR, WIND} then (fl (gen + currentOutput a), cons)
     else if asset_type a \<in> {BUILDING, FACTORY, EV_STATION}
       then (gen, fl (cons + currentOutput a))
     else if asset_type a = BATTERY then
       (if currentOutput a > 0 then (fl (gen + currentOutput a), cons)
        else (gen, fl (cons + \<bar>currentOutput a\<bar>)))
     else (gen, cons))"

definition stats_rounded :: "(real \<Rightarrow> real) \<Rightarrow> real \<Rightarrow> GridAsset list \<Rightarrow> GridStats" where
  "stats_rounded fl r as =
    (case foldl (accumulate_rounded fl) (0, 0) as of (gen, cons) \<Rightarrow>
      \<lparr>totalGeneration = fl (Math_round (fl (gen * 10)) / 10),
       totalConsumption = fl (Math_round (fl (cons * 10)) / 10),
       netLoad = fl (Math_round (fl (fl (cons - gen) * 10)) / 10),
       storageLevel = 65,
       gridFrequency = fl (50 + fl (fl (r - 0.5) * fl 0.1))\<rparr>)"

text \<open>The condition under which the frequency indicator of the header turns amber.\<close>

definition frequency_out_of_band :: "GridStats \<Rightarrow> bool" where
  "frequency_out_of_band st \<longleftrightarrow> gridFrequency st > 50.05 \<or> gridFrequency st < 49.95"

section \<open>The timer callback\<close>

text \<open>
  \<open>next.slice(-20)\<close>: the elements from index \<open>max (length - 20) 0\<close> on; the
  subtraction on \<open>nat\<close> stops at 0 as the \<open>max\<close> does.
\<close>

definition slice_last :: "nat \<Rightarrow> 'a list \<Rightarrow> 'a list" where
  "slice_last n xs = drop (length xs - n) xs"

text \<open>The object \<open>newPoint\<close>, from the clock reading and the \<open>stats\<close> of the closure.\<close>

definition newPoint :: "string \<Rightarrow> GridStats \<Rightarrow> HistoryPoint" where
  "newPoint now st =
    \<lparr>time = now, generation = totalGeneration st,
     consumption = totalConsumption st, net = netLoad st\<rparr>"

text \<open>The updater given to \<open>setAssets\<close> by the timer, for one asset and one draw \<open>r\<close>.\<close>

definition fluctuate :: "real \<Rightarrow> GridAsset \<Rightarrow> GridAsset" where
  "fluctuate r a =
    a\<lparr>currentOutput := max 0 (min (capacity a) (currentOutput a + (r - 0.5) * 2))\<rparr>"

text \<open>
  One firing of the interval timer. The effect is re-installed whenever \<open>stats\<close>
  changes, so the \<open>stats\<close> its closure reads is the memo of the registry as it is
  when the timer fires, before \<open>setAssets\<close> runs: \<open>stats rf (assets s)\<close>, with
  \<open>rf\<close> the draw of that memo. \<open>now\<close> is the formatted clock reading and \<open>rnd i\<close>
  the draw of \<open>Math.random()\<close> for the asset at index \<open>i\<close>.
\<close>

definition tick :: "string \<Rightarrow> real \<Rightarrow> (nat \<Rightarrow> real) \<Rightarrow> AppState \<Rightarrow> AppState" where
  "tick now rf rnd s =
    s\<lparr>history := slice_last 20 (history s @ [newPoint now (stats rf (assets s))]),
      assets := map (\<lambda>(i, a). fluctuate (rnd i) a) (enumerate 0 (assets s))\<rparr>"

section \<open>Scenarios and reset\<close>

datatype Scenario = heatwave | storm | blackout | peak

definition scenario_name :: "Scenario \<Rightarrow> string" where
  "scenario_name ty =
    (case ty of heatwave \<Rightarrow> ''heatwave'' | storm \<Rightarrow> ''storm''
     | blackout \<Rightarrow> ''blackout'' | peak \<Rightarrow> ''peak'')"

definition addLog :: "string \<Rightarrow> AppState \<Rightarrow> AppState" where
  "addLog msg s = s\<lparr>logs := take 10 (msg # logs s)\<rparr>"

text \<open>The function mapped over the registry by \<open>runSimulation\<close>, branch by branch.\<close>

definition scenario_effect :: "Scenario \<Rightarrow> GridAsset \<Rightarrow> GridAsset" where
  "scenario_effect ty a =
    (if ty = heatwave \<and> asset_type a = SOLAR then a\<lparr>currentOutput := capacity a * 0.95\<rparr>
     else if ty = heatwave \<and> asset_type a = BUILDING then a\<lparr>currentOutput := capacity a * 0.9\<rparr>
     else if ty = storm \<and> asset_type a = WIND
       then a\<lparr>currentOutput := capacity a * 0.8, status := warning\<rparr>
     else if ty = storm \<and> asset_type a = SOLAR then a\<lparr>currentOutput := capacity a * 0.1\<rparr>
     else if ty = blackout \<and> asset_type a \<noteq> BATTERY
       then a\<lparr>currentOutput := 0, status := offline\<rparr>
     else if ty = blackout then a\<lparr>currentOutput := capacity a * 0.5\<rparr>
     else a)"

text \<open>
  \<open>runSimulation\<close>: the log line and the new registry. The call of
  \<open>getAiStrategy\<close> it schedules is a later event of its own.
\<close>

definition runSimulation :: "Scenario \<Rightarrow> AppState \<Rightarrow> AppState" where
  "runSimulation ty s =
    (let s1 = addLog (''Initiating '' @ scenario_name ty @ '' simulation...'') s
     in s1\<lparr>assets := map (scenario_effect ty) (assets s1)\<rparr>)"

text \<open>The handler of the Reset Grid button: \<open>setAssets(INITIAL_ASSETS)\<close>.\<close>

definition reset :: "AppState \<Rightarrow> AppState" where
  "reset s = s\<lparr>assets := INITIAL_ASSETS\<rparr>"

text \<open>The events that change the registry, and a run of them in order.\<close>

datatype Event = Tick string real "nat \<Rightarrow> real" | Simulate Scenario | ResetGrid

fun step :: "AppState \<Rightarrow> Event \<Rightarrow> AppState" where
  "step s (Tick now rf rnd) = tick now rf rnd s"
| "step s (Simulate ty) = runSimulation ty s"
| "step s ResetGrid = reset s"

definition run :: "AppState \<Rightarrow> Event list \<Rightarrow> AppState" where
  "run s es = foldl step s es"

text \<open>The points handed to \<open>setHistory\<close> during a run, in the order of the ticks.\<close>

fun appended :: "AppState \<Rightarrow> Event list \<Rightarrow> HistoryPoint list" where
  "appended s [] = []"
| "appended s (Tick now rf rnd # es) =
    newPoint now (stats rf (assets s)) # appended (tick now rf rnd s) es"
| "appended s (e # es) = appended (step s e) es"

section \<open>The advisory call\<close>

text \<open>
  The text-generation service is outside the repository: it is a parameter, a function
  from the request to either a failure (anything thrown inside the \<open>try\<close> block: the
  client's constructor, the request, the read of the response) or the \<open>text\<close> of the
  response, which may be undefined. The prompt is a template over the three figures and
  the context, kept as the record of what it interpolates.
\<close>

datatype AiFailure = Thrown string

record AdvisoryRequest =
  generationMW :: real
  consumptionMW :: real
  netLoadMW :: real
  scenario :: string

type_synonym Collaborator = "AdvisoryRequest \<Rightarrow> AiFailure + string option"

text \<open>\<open>response.text || "..."\<close>: undefined and the empty string are falsy.\<close>

definition text_or_default :: "string option \<Rightarrow> string" where
  "text_or_default t =
    (case t of None \<Rightarrow> ''Optimize storage to balance peaks.''
     | Some txt \<Rightarrow> if txt = [] then ''Optimize storage to balance peaks.'' else txt)"

text \<open>What the prompt is built from: the three reported figures and the context.\<close>

definition advisory_request :: "GridStats \<Rightarrow> string \<Rightarrow> AdvisoryRequest" where
  "advisory_request st context =
    \<lparr>generationMW = totalGeneration st, consumptionMW = totalConsumption st,
     netLoadMW = netLoad st, scenario = context\<rparr>"

text \<open>The \<open>try\<close> block: an error of the collaborator leaves it as \<open>Inl\<close>.\<close>

definition try_block :: "Collaborator \<Rightarrow> GridStats \<Rightarrow> string \<Rightarrow> AppState \<Rightarrow> AiFailure + AppState" where
  "try_block ai st context s =
    (case ai (advisory_request st context) of
       Inl e \<Rightarrow> Inl e
     | Inr t \<Rightarrow> Inr (s\<lparr>aiAdvice := text_or_default t\<rparr>))"

text \<open>
  \<open>getAiStrategy\<close>, from the call to the settling of its promise: \<open>Inl\<close> would be
  a rejection reaching the caller.
\<close>

definition getAiStrategy :: "Collaborator \<Rightarrow> GridStats \<Rightarrow> string \<Rightarrow> AppState \<Rightarrow> AiFailure + AppState" where
  "getAiStrategy ai st context s =
    (let s1 = s\<lparr>isLoadingAdvice := True\<rparr>;
         s2 = (case try_block ai st context s1 of
                 Inr s' \<Rightarrow> s'
               | Inl e \<Rightarrow> s1\<lparr>aiAdvice := ''AI Advice unavailable. Manual override suggested.''\<rparr>)
     in Inr (s2\<lparr>isLoadingAdvice := False\<rparr>))"

section \<open>Reference definitions and fixtures\<close>

text \<open>
  The scenario table as the specification words it, keyed by scenario and asset type;
  a pair that is in no row leaves the asset as it is.
\<close>

definition scenario_table :: "Scenario \<Rightarrow> GridAsset \<Rightarrow> GridAsset" where
  "scenario_table ty a =
    (case (ty, asset_type a) of
       (heatwave, SOLAR) \<Rightarrow> a\<lparr>currentOutput := 0.95 * capacity a\<rparr>
     | (heatwave, BUILDING) \<Rightarrow> a\<lparr>currentOutput := 0.90 * capacity a\<rparr>
     | (storm, WIND) \<Rightarrow> a\<lparr>currentOutput := 0.80 * capacity a, status := warning\<rparr>
     | (storm, SOLAR) \<Rightarrow> a\<lparr>currentOutput := 0.10 * capacity a\<rparr>
     | (blackout, BATTERY) \<Rightarrow> a\<lparr>currentOutput := 0.50 * capacity a\<rparr>
     | (blackout, _) \<Rightarrow> a\<lparr>currentOutput := 0, status := offline\<rparr>
     | _ \<Rightarrow> a)"

text \<open>Which events of a run are firings of the timer.\<close>

fun is_tick :: "Event \<Rightarrow> bool" where
  "is_tick (Tick now rf rnd) = True"
| "is_tick e = False"

text \<open>
  Rounding half up to an integer, as the specification words it: down when the
  fractional part is below one half, up otherwise (a tie goes up).
\<close>

definition round_half_up :: "real \<Rightarrow> real" where
  "round_half_up v = (if frac v < 1 / 2 then of_int \<lfloor>v\<rfloor> else of_int \<lfloor>v\<rfloor> + 1)"

text \<open>
  A registry of the data model: capacities are non-negative, and only a battery has a
  negative output.
\<close>

definition registry_ok :: "GridAsset list \<Rightarrow> bool" where
  "registry_ok as \<longleftrightarrow>
    list_all (\<lambda>a. 0 \<le> capacity a \<and> (asset_type a \<noteq> BATTERY \<longrightarrow> 0 \<le> currentOutput a)) as"

text \<open>A source of draws that returns the same number for every asset.\<close>

definition constant_source :: "real \<Rightarrow> nat \<Rightarrow> real" where
  "constant_source r i = r"

text \<open>A source of draws that reads them from a list, and draws \<open>1/2\<close> past its end.\<close>

definition source_of_list :: "real list \<Rightarrow> nat \<Rightarrow> real" where
  "source_of_list rs i = (if i < length rs then rs ! i else 1 / 2)"

text \<open>A collaborator whose request always throws.\<close>

definition failing_collaborator :: Collaborator where
  "failing_collaborator req = Inl (Thrown ''fetch failed'')"

section \<open>The clamp of the tick\<close>

lemma fluctuate_capacity: "capacity (fluctuate r a) = capacity a"
  by (simp add: fluctuate_def)

lemma fluctuate_lower: "0 \<le> currentOutput (fluctuate r a)"
  by (simp add: fluctuate_def)

lemma fluctuate_upper: "0 \<le> capacity a \<Longrightarrow> currentOutput (fluctuate r a) \<le> capacity a"
  by (simp add: fluctuate_def)

lemma tick_assets_elem:
  assumes "a' \<in> set (assets (tick now rf rnd s))"
  shows "\<exists>i a. a \<in> set (assets s) \<and> a' = fluctuate (rnd i) a"
proof -
  from assms obtain i where "i < length (assets s)" and "a' = fluctuate (rnd i) (assets s ! i)"
    by (auto simp: tick_def in_set_enumerate_eq)
  then show ?thesis using nth_mem by blast
qed

lemma tick_assets_length: "length (assets (tick now rf rnd s)) = length (assets s)"
  by (simp add: tick_def)

lemma tick_assets_nth:
  "i < length (assets s) \<Longrightarrow>
    assets (tick now rf rnd s) ! i = fluctuate (rnd i) (assets s ! i)"
  by (simp add: tick_def nth_enumerate_eq)

text \<open>
  C1. A tick keeps the registry's length and order and replaces the \<open>currentOutput\<close>
  of the asset at each index \<open>i\<close> by its old value plus the delta \<open>(rnd i - 0.5) * 2\<close>
  of that asset's draw, clamped to \<open>[0, capacity]\<close>; no other field changes. So after
  the tick every asset has \<open>0 \<le> currentOutput \<le> capacity\<close>, whatever the draws and
  whatever \<open>currentOutput\<close> was before (a charging battery included). Capacities are
  the non-negative bounds of the data model.
\<close>

theorem tick_clamp_invariant:
  assumes "\<forall>a\<in>set (assets s). 0 \<le> capacity a"
  shows "length (assets (tick now rf rnd s)) = length (assets s)
    \<and> (\<forall>i<length (assets s).
          assets (tick now rf rnd s) ! i
            = (assets s ! i)\<lparr>currentOutput :=
                max 0 (min (capacity (assets s ! i))
                  (currentOutput (assets s ! i) + (rnd i - 0.5) * 2))\<rparr>)
    \<and> (\<forall>a'\<in>set (assets (tick now rf rnd s)).
          0 \<le> currentOutput a' \<and> currentOutput a' \<le> capacity a')"
proof (intro conjI)
  show "length (assets (tick now rf rnd s)) = length (assets s)"
    by (rule tick_assets_length)
  show "\<forall>i<length (assets s).
          assets (tick now rf rnd s) ! i
            = (assets s ! i)\<lparr>currentOutput :=
                max 0 (min (capacity (assets s ! i))
                  (currentOutput (assets s ! i) + (rnd i - 0.5) * 2))\<rparr>"
    by (simp add: tick_assets_nth fluctuate_def)
  show "\<forall>a'\<in>set (assets (tick now rf rnd s)).
          0 \<le> currentOutput a' \<and> currentOutput a' \<le> capacity a'"
  proof
    fix a'
    assume "a' \<in> set (assets (tick now rf rnd s))"
    then obtain i a where a: "a \<in> set (assets s)" and a': "a' = fluctuate (rnd i) a"
      using tick_assets_elem by blast
    from a assms have "0 \<le> capacity a" by blast
    then show "0 \<le> currentOutput a' \<and> currentOutput a' \<le> capacity a'"
      unfolding a' by (simp add: fluctuate_lower fluctuate_upper fluctuate_capacity)
  qed
qed

theorem tick_clamp_invariant_witness:
  "list_all (\<lambda>a. 0 \<le> capacity a) (assets initial_state)
   \<and> map currentOutput (assets initial_state) = [35, 42, - 10, 25, 85, 12]
   \<and> map capacity (assets initial_state) = [50, 80, 40, 30, 100, 20]
   \<and> length (assets (tick ''12:00:00'' (1 / 4) (constant_source (3 / 4)) initial_state)) = 6
   \<and> map currentOutput
        (assets (tick ''12:00:00'' (1 / 4) (constant_source (3 / 4)) initial_state))
       = [35.5, 42.5, 0, 25.5, 85.5, 12.5]
   \<and> list_all (\<lambda>a'. 0 \<le> currentOutput a' \<and> currentOutput a' \<le> capacity a')
        (assets (tick ''12:00:00'' (1 / 4) (constant_source (3 / 4)) initial_state))"
proof -
  let ?s' = "tick ''12:00:00'' (1 / 4) (constant_source (3 / 4)) initial_state"
  have h: "\<forall>a\<in>set (assets initial_state). 0 \<le> capacity a"
    by (simp add: initial_state_def INITIAL_ASSETS_def)
  have b: "map currentOutput (assets initial_state) = [35, 42, - 10, 25, 85, 12]"
    "map capacity (assets initial_state) = [50, 80, 40, 30, 100, 20]"
    by (simp_all add: initial_state_def INITIAL_ASSETS_def)
  note t = tick_clamp_invariant [OF h, of "''12:00:00''" "1 / 4" "constant_source (3 / 4)"]
  have n: "length (assets initial_state) = 6"
    by (simp add: initial_state_def INITIAL_ASSETS_def)
  from t n have len: "length (assets ?s') = 6" by simp
  have c: "map currentOutput (assets ?s') = [35.5, 42.5, 0, 25.5, 85.5, 12.5]"
    by (simp add: tick_def initial_state_def INITIAL_ASSETS_def fluctuate_def
        constant_source_def enumerate_eq_zip upt_rec)
  from t have d: "list_all (\<lambda>a'. 0 \<le> currentOutput a' \<and> currentOutput a' \<le> capacity a') (assets ?s')"
    unfolding list_all_iff by blast
  from h have h': "list_all (\<lambda>a. 0 \<le> capacity a) (assets initial_state)"
    unfolding list_all_iff .
  from h' b len c d show ?thesis by (intro conjI)
qed

section \<open>Scenarios\<close>

lemma scenario_effect_table: "scenario_effect ty a = scenario_table ty a"
  by (cases ty; cases "asset_type a") (simp_all add: scenario_effect_def scenario_table_def)

lemma runSimulation_assets: "assets (runSimulation ty s) = map (scenario_effect ty) (assets s)"
  by (simp add: runSimulation_def addLog_def Let_def)

text \<open>The examples of the specification, on the seed assets.\<close>

lemma heatwave_seed_example:
  "scenario_effect heatwave (INITIAL_ASSETS ! 0) = (INITIAL_ASSETS ! 0)\<lparr>currentOutput := 47.5\<rparr>"
  by (simp add: scenario_effect_def INITIAL_ASSETS_def)

lemma storm_seed_example:
  "scenario_effect storm (INITIAL_ASSETS ! 1)
    = (INITIAL_ASSETS ! 1)\<lparr>currentOutput := 64, status := warning\<rparr>"
  by (simp add: scenario_effect_def INITIAL_ASSETS_def)

lemma blackout_seed_example:
  "map (\<lambda>a. (currentOutput a, status a)) (assets (runSimulation blackout initial_state))
    = [(0, offline), (0, offline), (20, active), (0, offline), (0, offline), (0, offline)]"
  by (simp add: runSimulation_assets scenario_effect_def initial_state_def INITIAL_ASSETS_def)

text \<open>
  C2. The registry after \<open>runSimulation\<close> is the old one with the row of the scenario
  table for its type applied to each asset, in place: heatwave, storm and blackout
  change what their rows say, and an asset in no row is returned as it was.
\<close>

theorem runSimulation_table:
  "assets (runSimulation ty s) = map (scenario_table ty) (assets s)"
  by (simp add: runSimulation_assets scenario_effect_table)

text \<open>
  C3. Reset after any run of ticks, scenarios and resets from the initial state gives
  back the seed list, equal as a list of records.
\<close>

theorem reset_restores_seed:
  "assets (reset (run initial_state es)) = INITIAL_ASSETS"
  by (simp add: reset_def)

lemma scenario_effect_idem: "scenario_effect ty (scenario_effect ty a) = scenario_effect ty a"
  by (cases ty; cases "asset_type a") (simp_all add: scenario_effect_def)

text \<open>
  C4. Running the same scenario twice in a row leaves the registry that running it once
  leaves.
\<close>

theorem runSimulation_idempotent:
  "assets (runSimulation ty (runSimulation ty s)) = assets (runSimulation ty s)"
  by (simp add: runSimulation_assets scenario_effect_idem)

section \<open>The history buffer\<close>

lemma slice_last_length: "length (slice_last n xs) = min n (length xs)"
  by (simp add: slice_last_def)

lemma slice_last_short: "length xs \<le> n \<Longrightarrow> slice_last n xs = xs"
  by (simp add: slice_last_def)

lemma slice_last_absorb: "slice_last n (slice_last n xs @ ys) = slice_last n (xs @ ys)"
proof (cases "length xs \<le> n")
  case True
  then show ?thesis by (simp add: slice_last_def)
next
  case False
  then have "length xs + length ys - (length xs - n + n) + (length xs - n)
      = length xs + length ys - n"
    by arith
  then show ?thesis by (simp add: slice_last_def)
qed

lemma last_slice_last: "0 < n \<Longrightarrow> last (slice_last n (xs @ [p])) = p"
  by (simp add: slice_last_def)

lemma history_runSimulation: "history (runSimulation ty s) = history s"
  by (simp add: runSimulation_def addLog_def Let_def)

lemma history_reset: "history (reset s) = history s"
  by (simp add: reset_def)

lemma history_tick:
  "history (tick now rf rnd s) = slice_last 20 (history s @ [newPoint now (stats rf (assets s))])"
  by (simp add: tick_def)

lemma history_run:
  "length (history s) \<le> 20 \<Longrightarrow>
    history (run s es) = slice_last 20 (history s @ appended s es)"
proof (induction es arbitrary: s)
  case Nil
  then show ?case by (simp add: run_def slice_last_short)
next
  case (Cons e es)
  show ?case
  proof (cases e)
    case (Tick now rf rnd)
    let ?p = "newPoint now (stats rf (assets s))"
    have len: "length (history (tick now rf rnd s)) \<le> 20"
      by (simp add: history_tick slice_last_length)
    have "history (run s (e # es)) = history (run (tick now rf rnd s) es)"
      by (simp add: run_def Tick)
    also have "\<dots> = slice_last 20 (history (tick now rf rnd s) @ appended (tick now rf rnd s) es)"
      using Cons.IH [OF len] .
    also have "\<dots> = slice_last 20 ((history s @ [?p]) @ appended (tick now rf rnd s) es)"
      unfolding history_tick by (rule slice_last_absorb)
    finally show ?thesis by (simp add: Tick)
  next
    case (Simulate ty)
    have "length (history (runSimulation ty s)) \<le> 20"
      using Cons.prems by (simp add: history_runSimulation)
    from Cons.IH [OF this] show ?thesis
      by (simp add: run_def Simulate history_runSimulation)
  next
    case ResetGrid
    have "length (history (reset s)) \<le> 20"
      using Cons.prems by (simp add: history_reset)
    from Cons.IH [OF this] show ?thesis
      by (simp add: run_def ResetGrid history_reset)
  qed
qed

lemma appended_length: "length (appended s es) = length (filter is_tick es)"
proof (induction es arbitrary: s)
  case Nil
  show ?case by simp
next
  case (Cons e es)
  then show ?case by (cases e) simp_all
qed

text \<open>
  C5. After any run from the initial state the history holds \<open>min 20 n\<close> points, \<open>n\<close>
  the number of ticks of the run: never more than 20, and exactly 20 once there have
  been more than 20 ticks. They are the last points appended, in the order of their
  ticks: the list of all appended points with its oldest \<open>n - 20\<close> dropped.
\<close>

theorem history_keeps_last_20:
  "length (history (run initial_state es)) = min 20 (length (filter is_tick es))
   \<and> history (run initial_state es)
     = drop (length (appended initial_state es) - 20) (appended initial_state es)"
proof -
  have "history (run initial_state es) = slice_last 20 (appended initial_state es)"
    using history_run [of initial_state es] by (simp add: initial_state_def)
  then show ?thesis
    by (simp add: slice_last_def appended_length)
qed

text \<open>
  C6, as the code has it. The point a tick appends is the last of the new history; it
  carries the clock reading, and its generation, consumption and net are the figures
  of the statistics of the registry as it was before the tick changed the assets
  (whatever draw the frequency of those statistics used).
\<close>

theorem tick_appends_pre_tick_stats:
  "history (tick now rf rnd s) \<noteq> []
   \<and> time (last (history (tick now rf rnd s))) = now
   \<and> generation (last (history (tick now rf rnd s))) = totalGeneration (stats rf' (assets s))
   \<and> consumption (last (history (tick now rf rnd s))) = totalConsumption (stats rf' (assets s))
   \<and> net (last (history (tick now rf rnd s))) = netLoad (stats rf' (assets s))"
proof -
  have "last (history (tick now rf rnd s)) = newPoint now (stats rf (assets s))"
    by (simp add: history_tick last_slice_last)
  moreover have "history (tick now rf rnd s) \<noteq> []"
    by (simp add: history_tick slice_last_def)
  ultimately show ?thesis
    by (simp add: newPoint_def stats_def split: prod.split)
qed

text \<open>
  C6, as the claim has it, fails on the seed registry with every draw \<open>3/4\<close>: the
  appended point reports the generation 77 of the seed, the registry after the tick
  generates 78.
\<close>

theorem tick_appends_post_tick_stats_counterexample:
  "generation (last (history (tick ''12:00:00'' (1 / 4) (constant_source (3 / 4)) initial_state)))
    \<noteq> totalGeneration (stats (1 / 4)
         (assets (tick ''12:00:00'' (1 / 4) (constant_source (3 / 4)) initial_state)))"
proof -
  have "generation
      (last (history (tick ''12:00:00'' (1 / 4) (constant_source (3 / 4)) initial_state))) = 77"
    by (simp add: tick_def slice_last_def newPoint_def stats_def initial_state_def
        INITIAL_ASSETS_def Math_round_def)
  moreover have "totalGeneration (stats (1 / 4)
         (assets (tick ''12:00:00'' (1 / 4) (constant_source (3 / 4)) initial_state))) = 78"
    by (simp add: stats_def INITIAL_ASSETS_def Math_round_def tick_def initial_state_def
        fluctuate_def constant_source_def enumerate_eq_zip upt_rec)
  ultimately show ?thesis by simp
qed

section \<open>Grid frequency\<close>

text \<open>
  C10. With the draw \<open>r\<close> in \<open>[0, 1)\<close>, the frequency is \<open>50 + (r - 0.5) * 0.1\<close>, it
  lies in \<open>[49.95, 50.05)\<close>, and the amber condition of the indicator does not hold.
\<close>

theorem gridFrequency_in_band:
  assumes "0 \<le> r" and "r < 1"
  shows "gridFrequency (stats r as) = 50 + (r - 0.5) * 0.1
    \<and> 49.95 \<le> gridFrequency (stats r as) \<and> gridFrequency (stats r as) < 50.05
    \<and> \<not> frequency_out_of_band (stats r as)"
proof -
  have f: "gridFrequency (stats r as) = 50 + (r - 0.5) * 0.1"
    by (simp add: stats_def split: prod.split)
  have lo: "(49.95::real) \<le> 50 + (r - 0.5) * 0.1"
    using assms by (simp add: field_simps)
  have hi: "50 + (r - 0.5) * 0.1 < (50.05::real)"
    using assms by (simp add: field_simps)
  from lo hi show ?thesis
    unfolding frequency_out_of_band_def f by linarith
qed

theorem gridFrequency_in_band_witness:
  "(0::real) \<le> 1 / 4 \<and> (1 / 4 :: real) < 1
    \<and> gridFrequency (stats (1 / 4) INITIAL_ASSETS) = 50 + (1 / 4 - 0.5) * 0.1
    \<and> \<not> frequency_out_of_band (stats (1 / 4) INITIAL_ASSETS)"
  using gridFrequency_in_band [of "1 / 4" INITIAL_ASSETS] by simp

section \<open>Rounding of the statistics\<close>

lemma stats_fields:
  "totalGeneration (stats r as) = Math_round (fst (foldl accumulate (0, 0) as) * 10) / 10"
  "totalConsumption (stats r as) = Math_round (snd (foldl accumulate (0, 0) as) * 10) / 10"
  "netLoad (stats r as) =
     Math_round ((snd (foldl accumulate (0, 0) as) - fst (foldl accumulate (0, 0) as)) * 10) / 10"
  by (simp_all add: stats_def split: prod.split)

lemma Math_round_half_up:
  "Math_round v = (if frac v < 1 / 2 then of_int \<lfloor>v\<rfloor> else of_int \<lfloor>v\<rfloor> + 1)"
proof (cases "frac v < 1 / 2")
  case True
  have "\<lfloor>v + 1 / 2\<rfloor> = \<lfloor>v\<rfloor>"
  proof (rule floor_unique)
    show "of_int \<lfloor>v\<rfloor> \<le> v + 1 / 2" using of_int_floor_le [of v] by linarith
    show "v + 1 / 2 < of_int \<lfloor>v\<rfloor> + 1" using True by (simp add: frac_def)
  qed
  with True show ?thesis by (simp add: Math_round_def)
next
  case False
  have "\<lfloor>v + 1 / 2\<rfloor> = \<lfloor>v\<rfloor> + 1"
  proof (rule floor_unique)
    show "of_int (\<lfloor>v\<rfloor> + 1) \<le> v + 1 / 2" using False by (simp add: frac_def)
    show "v + 1 / 2 < of_int (\<lfloor>v\<rfloor> + 1) + 1"
      unfolding of_int_add of_int_1 using floor_correct [of v] by linarith
  qed
  with False show ?thesis by (simp add: Math_round_def)
qed

lemma Math_round_eq_round_half_up: "Math_round v = round_half_up v"
  by (simp add: Math_round_half_up round_half_up_def)

text \<open>The rounded value is the integer within one half of the argument, a tie going up.\<close>

lemma round_half_up_nearest:
  "round_half_up v \<in> \<int> \<and> round_half_up v - 1 / 2 \<le> v \<and> v < round_half_up v + 1 / 2"
proof -
  have "of_int \<lfloor>v + 1 / 2\<rfloor> \<le> v + 1 / 2" and "v + 1 / 2 < of_int \<lfloor>v + 1 / 2\<rfloor> + 1"
    using floor_correct [of "v + 1 / 2"] by simp_all
  then have "Math_round v \<in> \<int> \<and> Math_round v - 1 / 2 \<le> v \<and> v < Math_round v + 1 / 2"
    unfolding Math_round_def by (intro conjI) (simp, linarith, linarith)
  then show ?thesis by (simp only: Math_round_eq_round_half_up)
qed

lemma Math_round_nonneg: "0 \<le> v \<Longrightarrow> 0 \<le> Math_round v"
  by (simp add: Math_round_def)

lemma accumulate_rounded_exact: "accumulate_rounded (\<lambda>v. v) acc a = accumulate acc a"
  by (cases acc) simp

lemma foldl_accumulate_rounded_exact:
  "foldl (accumulate_rounded (\<lambda>v. v)) acc as = foldl accumulate acc as"
  by (induction as arbitrary: acc) (simp_all add: accumulate_rounded_exact)

lemma stats_rounded_exact: "stats_rounded (\<lambda>v. v) r as = stats r as"
  by (simp add: stats_rounded_def stats_def foldl_accumulate_rounded_exact)

text \<open>
  C7, as the code has it, for every rounding \<open>fl\<close> of the arithmetic, that of the
  doubles included. Each reported figure is a value times ten, as a double, rounded
  half up to an integer and divided by ten, as a double. The values are the unrounded
  generation, the unrounded consumption and, for the net load, the unrounded consumption
  minus the unrounded generation: the net load is rounded on its own, not computed from
  the two reported figures.
\<close>

theorem stats_rounding:
  "totalGeneration (stats_rounded fl r as)
     = fl (round_half_up (fl (fst (foldl (accumulate_rounded fl) (0, 0) as) * 10)) / 10)
   \<and> totalConsumption (stats_rounded fl r as)
     = fl (round_half_up (fl (snd (foldl (accumulate_rounded fl) (0, 0) as) * 10)) / 10)
   \<and> netLoad (stats_rounded fl r as)
     = fl (round_half_up
         (fl (fl (snd (foldl (accumulate_rounded fl) (0, 0) as)
                  - fst (foldl (accumulate_rounded fl) (0, 0) as)) * 10)) / 10)"
  by (simp add: stats_rounded_def Math_round_eq_round_half_up split: prod.split)

text \<open>
  C7, as the claim has it, fails after one tick on the seed registry with the draws
  0.53 for the solar plant, 0.57 for the building and 0.5 for the rest: generation is
  77.06 and consumption 122.14, reported as 77.1 and 122.1, and the net load 45.08 is
  reported as 45.1, not 45.0.
\<close>

theorem netLoad_difference_counterexample:
  "netLoad (stats (1 / 4)
      (assets (tick ''12:00:00'' (1 / 4)
         (source_of_list [0.53, 0.5, 0.5, 0.57, 0.5, 0.5]) initial_state)))
   \<noteq> totalConsumption (stats (1 / 4)
      (assets (tick ''12:00:00'' (1 / 4)
         (source_of_list [0.53, 0.5, 0.5, 0.57, 0.5, 0.5]) initial_state)))
     - totalGeneration (stats (1 / 4)
      (assets (tick ''12:00:00'' (1 / 4)
         (source_of_list [0.53, 0.5, 0.5, 0.57, 0.5, 0.5]) initial_state)))"
proof -
  have a: "foldl accumulate (0, 0) (assets (tick ''12:00:00'' (1 / 4)
         (source_of_list [0.53, 0.5, 0.5, 0.57, 0.5, 0.5]) initial_state))
      = (77.06, 122.14)"
    by (simp add: tick_def initial_state_def INITIAL_ASSETS_def fluctuate_def
        source_of_list_def enumerate_eq_zip upt_rec)
  show ?thesis
    unfolding stats_def a by (simp add: Math_round_def)
qed

section \<open>Sign of the totals\<close>

lemma accumulate_nonneg:
  assumes "asset_type a \<noteq> BATTERY \<longrightarrow> 0 \<le> currentOutput a"
    and "0 \<le> fst acc" and "0 \<le> snd acc"
  shows "0 \<le> fst (accumulate acc a) \<and> 0 \<le> snd (accumulate acc a)"
  using assms by (cases acc; cases "asset_type a") auto

lemma foldl_accumulate_nonneg:
  assumes "\<forall>a\<in>set as. asset_type a \<noteq> BATTERY \<longrightarrow> 0 \<le> currentOutput a"
    and "0 \<le> fst acc" and "0 \<le> snd acc"
  shows "0 \<le> fst (foldl accumulate acc as) \<and> 0 \<le> snd (foldl accumulate acc as)"
  using assms
proof (induction as arbitrary: acc)
  case Nil
  then show ?case by simp
next
  case (Cons a as)
  from Cons.prems have "0 \<le> fst (accumulate acc a) \<and> 0 \<le> snd (accumulate acc a)"
    by (intro accumulate_nonneg) simp_all
  with Cons.IH [of "accumulate acc a"] Cons.prems(1) show ?case by simp
qed

lemma stats_totals_nonneg:
  assumes "\<forall>a\<in>set as. asset_type a \<noteq> BATTERY \<longrightarrow> 0 \<le> currentOutput a"
  shows "0 \<le> totalGeneration (stats r as)" and "0 \<le> totalConsumption (stats r as)"
proof -
  from assms have "0 \<le> fst (foldl accumulate (0, 0) as) \<and> 0 \<le> snd (foldl accumulate (0, 0) as)"
    by (intro foldl_accumulate_nonneg) simp_all
  then show "0 \<le> totalGeneration (stats r as)" and "0 \<le> totalConsumption (stats r as)"
    by (simp_all add: stats_fields Math_round_nonneg)
qed

text \<open>
  C8, as the code has it. When every asset that is not a battery has a non-negative
  output, the reported generation and consumption are non-negative, whatever the
  outputs of the batteries.
\<close>

theorem totals_nonneg:
  assumes "\<forall>a\<in>set as. asset_type a \<noteq> BATTERY \<longrightarrow> 0 \<le> currentOutput a"
  shows "0 \<le> totalGeneration (stats r as) \<and> 0 \<le> totalConsumption (stats r as)"
  using stats_totals_nonneg [OF assms] by blast

theorem totals_nonneg_witness:
  "list_all (\<lambda>a. asset_type a \<noteq> BATTERY \<longrightarrow> 0 \<le> currentOutput a) INITIAL_ASSETS
   \<and> 0 \<le> totalGeneration (stats (1 / 4) INITIAL_ASSETS)
   \<and> 0 \<le> totalConsumption (stats (1 / 4) INITIAL_ASSETS)"
proof -
  have h: "\<forall>a\<in>set INITIAL_ASSETS. asset_type a \<noteq> BATTERY \<longrightarrow> 0 \<le> currentOutput a"
    by (simp add: INITIAL_ASSETS_def)
  from h totals_nonneg [OF h, of "1 / 4"] show ?thesis unfolding list_all_iff by blast
qed

text \<open>
  C8, as the claim has it, fails on a registry whose solar plant has the output \<open>-5\<close>:
  the reported generation is \<open>-5\<close>.
\<close>

theorem totals_nonneg_counterexample:
  "totalGeneration (stats (1 / 4)
     [\<lparr>asset_id = ''1'', asset_name = ''Sunny Meadows PV'', asset_type = SOLAR,
       capacity = 50, currentOutput = - 5, status = active, pos_x = 15, pos_y = 20\<rparr>]) < 0"
  by (simp add: stats_def Math_round_def)

text \<open>
  Every registry the application reaches from its initial state is one of the data
  model, so its totals are non-negative and the bound on the capacity holds in it.
\<close>

lemma registry_ok_seed: "registry_ok INITIAL_ASSETS"
  by (simp add: registry_ok_def INITIAL_ASSETS_def)

lemma registry_ok_tick: "registry_ok (assets s) \<Longrightarrow> registry_ok (assets (tick now rf rnd s))"
  by (auto simp: registry_ok_def list_all_iff tick_def in_set_enumerate_eq fluctuate_def)

lemma scenario_effect_ok:
  assumes "0 \<le> capacity a" and "asset_type a \<noteq> BATTERY \<longrightarrow> 0 \<le> currentOutput a"
  shows "0 \<le> capacity (scenario_effect ty a)
    \<and> (asset_type (scenario_effect ty a) \<noteq> BATTERY \<longrightarrow> 0 \<le> currentOutput (scenario_effect ty a))"
  using assms by (simp add: scenario_effect_def)

lemma registry_ok_runSimulation:
  "registry_ok (assets s) \<Longrightarrow> registry_ok (assets (runSimulation ty s))"
  using scenario_effect_ok
  by (simp add: registry_ok_def list_all_iff runSimulation_def addLog_def Let_def)

lemma registry_ok_run: "registry_ok (assets s) \<Longrightarrow> registry_ok (assets (run s es))"
proof (induction es arbitrary: s)
  case Nil
  then show ?case by (simp add: run_def)
next
  case (Cons e es)
  have "registry_ok (assets (step s e))"
    using Cons.prems
    by (cases e) (simp_all add: registry_ok_tick registry_ok_runSimulation reset_def registry_ok_seed)
  from Cons.IH [OF this] show ?case by (simp add: run_def)
qed

lemma reachable_registry_ok: "registry_ok (assets (run initial_state es))"
  by (rule registry_ok_run) (simp add: initial_state_def registry_ok_seed)

lemma reachable_totals_nonneg:
  "0 \<le> totalGeneration (stats r (assets (run initial_state es)))"
  "0 \<le> totalConsumption (stats r (assets (run initial_state es)))"
  using reachable_registry_ok [of es]
  by (auto intro!: stats_totals_nonneg simp: registry_ok_def list_all_iff)

lemma reachable_capacity_nonneg: "\<forall>a\<in>set (assets (run initial_state es)). 0 \<le> capacity a"
  using reachable_registry_ok [of es] by (simp add: registry_ok_def list_all_iff)

section \<open>Failure of the advisory call\<close>

lemma getAiStrategy_returns: "\<exists>s'. getAiStrategy ai st context s = Inr s'"
  by (simp add: getAiStrategy_def Let_def)

text \<open>
  C9, as the code has it. When the collaborator throws, \<open>getAiStrategy\<close> still
  returns: no error reaches the caller, the loading flag is cleared, and the advice is
  the fixed text of the \<open>catch\<close> branch, "AI Advice unavailable. Manual override
  suggested.".
\<close>

theorem getAiStrategy_failure_fallback:
  assumes "ai (advisory_request st context) = Inl e"
  shows "\<exists>s'. getAiStrategy ai st context s = Inr s'
    \<and> aiAdvice s' = ''AI Advice unavailable. Manual override suggested.''
    \<and> \<not> isLoadingAdvice s'"
  using assms by (simp add: getAiStrategy_def try_block_def Let_def)

theorem getAiStrategy_failure_fallback_witness:
  "failing_collaborator (advisory_request (stats (1 / 4) INITIAL_ASSETS) ''general'')
     = Inl (Thrown ''fetch failed'')
   \<and> (\<exists>s'. getAiStrategy failing_collaborator (stats (1 / 4) INITIAL_ASSETS) ''general''
          initial_state = Inr s'
        \<and> aiAdvice s' = ''AI Advice unavailable. Manual override suggested.''
        \<and> \<not> isLoadingAdvice s')"
proof -
  have h: "failing_collaborator (advisory_request (stats (1 / 4) INITIAL_ASSETS) ''general'')
     = Inl (Thrown ''fetch failed'')"
    by (simp add: failing_collaborator_def)
  from h getAiStrategy_failure_fallback
    [of failing_collaborator "stats (1 / 4) INITIAL_ASSETS" "''general''"
      "Thrown ''fetch failed''" initial_state]
  show ?thesis by blast
qed

text \<open>
  C9, as the claim has it, fails on the text: with a collaborator that throws, the
  advice is not the string "Manual override suggested.".
\<close>

theorem getAiStrategy_literal_counterexample:
  "getAiStrategy failing_collaborator (stats (1 / 4) INITIAL_ASSETS) ''general'' initial_state
     = Inr (initial_state\<lparr>aiAdvice := ''AI Advice unavailable. Manual override suggested.''\<rparr>)
   \<and> aiAdvice (projr (getAiStrategy failing_collaborator (stats (1 / 4) INITIAL_ASSETS)
        ''general'' initial_state)) \<noteq> ''Manual override suggested.''"
  by (simp add: getAiStrategy_def try_block_def failing_collaborator_def Let_def initial_state_def)

end
